theory Spec2Isabelle
  imports Main
begin

section \<open>Values that cross the channel\<close>

text \<open>
  The library is generic in the values it transports (TypeScript \<open>any\<close>): they are the
  type parameter \<open>'v\<close>. What an exposed method throws is either an instance of the class
  \<open>RelayedError\<close>, which wraps the value \<open>errorToRelay\<close>, or something else. Calling a
  function with the spread of \<open>undefined\<close> raises a TypeError, which is a thrown value of its
  own.
\<close>

datatype 'v thrown = RelayedError (errorToRelay: 'v) | TypeError | Thrown 'v

type_synonym 'v RestorerFunction = "string \<Rightarrow> 'v \<Rightarrow> 'v"

text \<open>
  The module \<open>restorer\<close> is imported by the main-process code and is not part of the sources
  at hand. The three functions the main process calls, \<open>restoreValue\<close>, \<open>makeRestorable\<close>
  and \<open>makeReturnedError\<close>, are parameters of the model: each is a function from its
  arguments to the value it returns.

  Modelled from the spec: the receiving side of a reply is not in the sources either. The
  spec says that a distinguished tag marks an encoded thrown error, so that the receiver
  re-raises a reconstructed error instead of returning a value: \<open>wasThrownError\<close> reads the
  tag and \<open>restoreThrownError\<close> reconstructs the error. Only the caller's proxy below uses
  them.
\<close>

record 'v Restorer =
  restoreValue :: "'v \<Rightarrow> 'v RestorerFunction option \<Rightarrow> 'v"
  makeRestorable :: "'v \<Rightarrow> 'v"
  makeReturnedError :: "'v \<Rightarrow> 'v"
  wasThrownError :: "'v \<Rightarrow> bool"
  restoreThrownError :: "'v \<Rightarrow> 'v RestorerFunction option \<Rightarrow> 'v"

section \<open>Channel names and registrations (shared_ipc)\<close>

text \<open>
  Modelled from the spec: \<open>toIpcName\<close> is declared in shared_ipc and its body is missing.
  The spec calls it a pure, deterministic, collision-free mapping from a class name and a
  method name to a channel name, which does not collide with the two reserved discovery
  channels either. A channel name is therefore kept as what it was derived from.
\<close>

datatype ipcName = API_REQUEST_IPC | API_RESPONSE_IPC | MethodIpc string string

definition toIpcName :: "string \<Rightarrow> string \<Rightarrow> ipcName" where
  "toIpcName apiClassName methodName = MethodIpc apiClassName methodName"

text \<open>
  An \<open>ApiRegistration\<close> as it travels: the discovery listener fills \<open>methodNames\<close> with a
  table lookup, which is \<open>undefined\<close> (here \<open>None\<close>) for a class that is not in the table.
\<close>

record ApiRegistration =
  className :: string
  methodNames :: "string list option"

type_synonym ApiRegistrationMap = "string \<rightharpoonup> string list"

section \<open>API objects\<close>

text \<open>
  A property of an API object is a function (\<open>typeof method == "function"\<close>) or anything
  else. A function is modelled by what awaiting its call yields for given arguments, with
  the object already bound as \<open>this\<close>: a thrown value (\<open>Inl\<close>) or a reply value (\<open>Inr\<close>).
\<close>

datatype 'v property = Function "'v list \<Rightarrow> 'v thrown + 'v" | NonFunction 'v

text \<open>
  An API object is its class name (\<open>mainApi.constructor.name\<close>) and its properties along
  the prototype chain, nearest first, so that reading \<open>mainApi[name]\<close> is the first entry of
  that name.
\<close>

record 'v ElectronMainApi =
  constructor_name :: string
  properties :: "(string \<times> 'v property) list"

text \<open>
  Modelled from the spec: \<open>getPropertyNames\<close> is declared in shared_ipc and its body is
  missing; the spec says that exposure enumerates the properties of the instance. It
  yields the names of the properties in their order.
\<close>

definition getPropertyNames :: "'v ElectronMainApi \<Rightarrow> string list" where
  "getPropertyNames mainApi = map fst (properties mainApi)"

definition getProperty :: "'v ElectronMainApi \<Rightarrow> string \<Rightarrow> 'v property option" where
  "getProperty mainApi methodName = map_of (properties mainApi) methodName"

text \<open>
  \<open>["_", "#"].includes(methodName[0])\<close>: the first character of the empty name is
  \<open>undefined\<close>, which the array does not include.
\<close>

definition isPrivateName :: "string \<Rightarrow> bool" where
  "isPrivateName methodName =
     (case methodName of [] \<Rightarrow> False | c # _ \<Rightarrow> c \<in> set [CHR ''_'', CHR ''#''])"

section \<open>The main process\<close>

record BrowserWindow =
  window_id :: nat
  webContents_id :: nat

text \<open>
  A bound window API is an object created by \<open>{}\<close>: it has an identity of its own
  (\<open>object_id\<close>), and its methods are closures over the window, the class name and the
  method name.
\<close>

record ApiBinding =
  object_id :: nat
  bound_window :: BrowserWindow
  bound_class :: string
  bound_methods :: "string list"

text \<open>
  The handler given to \<open>ipcMain.handle\<close> is a closure over the method and the restorer.
\<close>

record 'v handler_closure =
  bound_method :: "'v list \<Rightarrow> 'v thrown + 'v"
  handler_restorer :: "'v RestorerFunction option"

datatype 'v payload =
    RequestedClass string
  | Registration ApiRegistration
  | Arguments "'v list"

datatype promise = Pending | Resolved ApiBinding | Rejected string

text \<open>A retry that waits for its timer: the closure \<open>retryUntilTimeout\<close> hands to the timer.\<close>

record retry =
  retry_promise :: nat
  retry_window :: BrowserWindow
  retry_class :: string
  retry_elapsed :: nat
  retry_message :: string

text \<open>
  The state of the main process. The first five fields are the module's variables. The
  others record what the module does to its surroundings, which are not part of the
  repository: the calls of \<open>ipcMain.handle\<close> and \<open>ipcMain.on\<close>, the messages given to
  \<open>webContents.send\<close> (with the id of the receiving web contents), the calls of the error
  logger (a logger is named by a number), the promises \<open>bindWindowApi\<close> returned, the
  pending timers, the errors thrown out of a timer callback, and the number of objects
  created so far. The tables are the own properties of the objects the code indexes.
  What Electron makes of a call is outside the model, with one exception: a call message
  is served by the first handler recorded for its channel (\<open>ipcMain_invoke\<close> below), as
  Electron keeps one handler for a channel.
\<close>

record 'v main_process =
  mainApiMap :: ApiRegistrationMap
  errorLoggerFunc :: "nat option"
  windowApiMapByWebContentsID :: "nat \<rightharpoonup> ApiRegistrationMap"
  boundWindowApisByWindowID :: "nat \<rightharpoonup> (string \<rightharpoonup> ApiBinding)"
  listeningForIPC :: bool
  ipcMain_handle :: "(ipcName \<times> 'v handler_closure) list"
  ipcMain_on :: "ipcName list"
  webContents_send :: "(nat \<times> ipcName \<times> 'v payload) list"
  logger_calls :: "(nat \<times> 'v thrown) list"
  promises :: "promise list"
  timers :: "retry list"
  uncaught :: "string list"
  next_object :: nat

definition initial :: "'v main_process" where
  "initial =
     \<lparr>mainApiMap = Map.empty, errorLoggerFunc = None,
      windowApiMapByWebContentsID = Map.empty, boundWindowApisByWindowID = Map.empty,
      listeningForIPC = False, ipcMain_handle = [], ipcMain_on = [],
      webContents_send = [], logger_calls = [], promises = [], timers = [],
      uncaught = [], next_object = 0\<rparr>"

subsection \<open>Listeners for discovery\<close>

definition installIpcListeners :: "'v main_process \<Rightarrow> 'v main_process" where
  "installIpcListeners st =
     (if \<not> listeningForIPC st
      then st\<lparr>ipcMain_on := ipcMain_on st @ [API_REQUEST_IPC, API_RESPONSE_IPC],
              listeningForIPC := True\<rparr>
      else st)"

text \<open>The listener on \<open>API_REQUEST_IPC\<close>; \<open>sender\<close> is the id of \<open>event.sender\<close>.\<close>

definition on_API_REQUEST_IPC :: "nat \<Rightarrow> string \<Rightarrow> 'v main_process \<Rightarrow> 'v main_process" where
  "on_API_REQUEST_IPC sender apiClassName st =
     (let registration = \<lparr>className = apiClassName, methodNames = mainApiMap st apiClassName\<rparr>
      in st\<lparr>webContents_send :=
              webContents_send st @ [(sender, API_RESPONSE_IPC, Registration registration)]\<rparr>)"

text \<open>The listener on \<open>API_RESPONSE_IPC\<close>.\<close>

definition on_API_RESPONSE_IPC ::
  "nat \<Rightarrow> ApiRegistration \<Rightarrow> 'v main_process \<Rightarrow> 'v main_process" where
  "on_API_RESPONSE_IPC sender api st =
     (let windowApiMap =
            (case windowApiMapByWebContentsID st sender of
               None \<Rightarrow> Map.empty
             | Some m \<Rightarrow> m)
      in st\<lparr>windowApiMapByWebContentsID :=
              (windowApiMapByWebContentsID st)
                (sender \<mapsto> windowApiMap(className api := methodNames api))\<rparr>)"

text \<open>
  A message that arrives at \<open>ipcMain\<close> on a discovery channel reaches the listener on that
  channel, when one has been installed.
\<close>

fun ipcMain_emit :: "ipcName \<Rightarrow> nat \<Rightarrow> 'v payload \<Rightarrow> 'v main_process \<Rightarrow> 'v main_process" where
  "ipcMain_emit API_REQUEST_IPC sender (RequestedClass apiClassName) st =
     (if API_REQUEST_IPC \<in> set (ipcMain_on st)
      then on_API_REQUEST_IPC sender apiClassName st else st)"
| "ipcMain_emit API_RESPONSE_IPC sender (Registration api) st =
     (if API_RESPONSE_IPC \<in> set (ipcMain_on st)
      then on_API_RESPONSE_IPC sender api st else st)"
| "ipcMain_emit _ _ _ st = st"

subsection \<open>Exposing a main API\<close>

text \<open>
  The loop of \<open>exposeMainApi\<close> over the property names, with the method names pushed and
  the handlers installed so far.
\<close>

fun expose_methods ::
  "'v ElectronMainApi \<Rightarrow> 'v RestorerFunction option \<Rightarrow> string list \<Rightarrow>
   string list \<times> (ipcName \<times> 'v handler_closure) list \<Rightarrow>
   string list \<times> (ipcName \<times> 'v handler_closure) list" where
  "expose_methods mainApi restorer [] acc = acc"
| "expose_methods mainApi restorer (methodName # rest) (names, handlers) =
     (if methodName \<noteq> ''constructor'' \<and> \<not> isPrivateName methodName
      then (case getProperty mainApi methodName of
              Some (Function method) \<Rightarrow>
                expose_methods mainApi restorer rest
                  (names @ [methodName],
                   handlers @
                     [(toIpcName (constructor_name mainApi) methodName,
                       \<lparr>bound_method = method, handler_restorer = restorer\<rparr>)])
            | _ \<Rightarrow> expose_methods mainApi restorer rest (names, handlers))
      else expose_methods mainApi restorer rest (names, handlers))"

definition exposeMainApi ::
  "'v ElectronMainApi \<Rightarrow> 'v RestorerFunction option \<Rightarrow> 'v main_process \<Rightarrow> 'v main_process" where
  "exposeMainApi mainApi restorer st0 =
     (let apiClassName = constructor_name mainApi;
          st = installIpcListeners st0
      in if mainApiMap st apiClassName \<noteq> None then st
         else
           (case expose_methods mainApi restorer (getPropertyNames mainApi)
                   ([], ipcMain_handle st) of
              (names, handlers) \<Rightarrow>
                st\<lparr>ipcMain_handle := handlers,
                   mainApiMap := (mainApiMap st)(apiClassName \<mapsto> names)\<rparr>))"

definition setIpcErrorLogger :: "nat \<Rightarrow> 'v main_process \<Rightarrow> 'v main_process" where
  "setIpcErrorLogger loggerFunc st = st\<lparr>errorLoggerFunc := Some loggerFunc\<rparr>"

subsection \<open>The handler of a call channel\<close>

text \<open>
  What \<open>ipcMain.handle\<close> makes of a handler's run: the value it returned is the reply, a
  value it threw fails the call.
\<close>

datatype 'v outcome = Reply 'v | Failure "'v thrown"

text \<open>
  The \<open>try\<close> block: the arguments, when there are any, are restored one by one, the method
  is called with them and awaited, and the reply is made restorable. \<open>args\<close> is \<open>None\<close> for
  \<open>undefined\<close>, whose spread into the call raises.
\<close>

definition handler_try ::
  "'v Restorer \<Rightarrow> 'v handler_closure \<Rightarrow> 'v list option \<Rightarrow> 'v thrown + 'v" where
  "handler_try R h args =
     (case args of
        None \<Rightarrow> Inl TypeError
      | Some as \<Rightarrow>
          (case bound_method h (map (\<lambda>a. restoreValue R a (handler_restorer h)) as) of
             Inl err \<Rightarrow> Inl err
           | Inr replyValue \<Rightarrow> Inr (makeRestorable R replyValue)))"

definition handler ::
  "'v Restorer \<Rightarrow> 'v handler_closure \<Rightarrow> 'v list option \<Rightarrow> 'v main_process \<Rightarrow>
   'v outcome \<times> 'v main_process" where
  "handler R h args st =
     (case handler_try R h args of
        Inr replyValue \<Rightarrow> (Reply replyValue, st)
      | Inl (RelayedError e) \<Rightarrow> (Reply (makeReturnedError R e), st)
      | Inl err \<Rightarrow>
          (Failure err,
           (case errorLoggerFunc st of
              None \<Rightarrow> st
            | Some loggerFunc \<Rightarrow> st\<lparr>logger_calls := logger_calls st @ [(loggerFunc, err)]\<rparr>)))"

text \<open>
  A call message on a channel runs the handler installed on it; \<open>None\<close> when the channel
  has no handler.
\<close>

definition ipcMain_invoke ::
  "'v Restorer \<Rightarrow> ipcName \<Rightarrow> 'v list option \<Rightarrow> 'v main_process \<Rightarrow>
   ('v outcome \<times> 'v main_process) option" where
  "ipcMain_invoke R channel args st =
     (case map_of (ipcMain_handle st) channel of
        None \<Rightarrow> None
      | Some h \<Rightarrow> Some (handler R h args st))"

section \<open>Binding a window API\<close>

text \<open>
  \<open>resolve\<close> of the promise with index \<open>p\<close>: a promise that is settled stays as it is.
\<close>

definition resolve :: "nat \<Rightarrow> ApiBinding \<Rightarrow> 'v main_process \<Rightarrow> 'v main_process" where
  "resolve p boundApi st =
     (if p < length (promises st) \<and> promises st ! p = Pending
      then st\<lparr>promises := (promises st)[p := Resolved boundApi]\<rparr>
      else st)"

definition reject :: "nat \<Rightarrow> string \<Rightarrow> 'v main_process \<Rightarrow> 'v main_process" where
  "reject p err st =
     (if p < length (promises st) \<and> promises st ! p = Pending
      then st\<lparr>promises := (promises st)[p := Rejected err]\<rparr>
      else st)"

definition lookup2 :: "('a \<rightharpoonup> ('b \<rightharpoonup> 'c)) \<Rightarrow> 'a \<Rightarrow> 'b \<Rightarrow> 'c option" where
  "lookup2 table a b = (case table a of None \<Rightarrow> None | Some row \<Rightarrow> row b)"

text \<open>
  One attempt to bind. Without a registration for the class it sends a discovery request
  and fails. With one it creates a new object, gives it a method for each registered name,
  stores it in the table of bound APIs and resolves the promise with it.
\<close>

definition attemptBindWindowApi ::
  "BrowserWindow \<Rightarrow> string \<Rightarrow> nat \<Rightarrow> 'v main_process \<Rightarrow> bool \<times> 'v main_process" where
  "attemptBindWindowApi window apiClassName p st =
     (case lookup2 (windowApiMapByWebContentsID st) (webContents_id window) apiClassName of
        None \<Rightarrow>
          (False,
           st\<lparr>webContents_send :=
                webContents_send st @
                  [(webContents_id window, API_REQUEST_IPC, RequestedClass apiClassName)]\<rparr>)
      | Some names \<Rightarrow>
          (let boundApi =
                 \<lparr>object_id = next_object st, bound_window = window,
                  bound_class = apiClassName, bound_methods = names\<rparr>;
               windowApis =
                 (case boundWindowApisByWindowID st (webContents_id window) of
                    None \<Rightarrow> Map.empty
                  | Some apis \<Rightarrow> apis)
           in (True,
               resolve p boundApi
                 (st\<lparr>next_object := Suc (next_object st),
                     boundWindowApisByWindowID :=
                       (boundWindowApisByWindowID st)
                         (webContents_id window \<mapsto> windowApis(apiClassName \<mapsto> boundApi))\<rparr>))))"

text \<open>
  A method of a bound window API: \<open>makeRestorable\<close> is called on every argument and what
  it returns is dropped, then the argument array is sent on the channel of the method. The
  method returns nothing. Calling a name the object has no method for is a TypeError.
\<close>

definition call_bound_method ::
  "'v Restorer \<Rightarrow> ApiBinding \<Rightarrow> string \<Rightarrow> 'v list \<Rightarrow> 'v main_process \<Rightarrow>
   ('v thrown + unit) \<times> 'v main_process" where
  "call_bound_method R boundApi methodName args st =
     (if methodName \<in> set (bound_methods boundApi)
      then (let dropped = map (makeRestorable R) args
            in (Inr (),
                st\<lparr>webContents_send :=
                     webContents_send st @
                       [(webContents_id (bound_window boundApi),
                         toIpcName (bound_class boundApi) methodName,
                         Arguments args)]\<rparr>))
      else (Inl TypeError, st))"

text \<open>
  The binding timeout and the retry interval, in milliseconds: variables of shared_ipc
  (\<open>setIpcBindingTimeout\<close> sets the first).
\<close>

record ipc_config =
  bindingTimeoutMillis :: nat
  retryIntervalMillis :: nat

text \<open>
  Modelled from the spec: \<open>retryUntilTimeout\<close> is declared in shared_ipc
  (\<open>retryUntilTimeout(elapsedMillis, attemptFunc, timeoutMessage): void\<close>) and its body is
  missing. The spec describes a bounded retry loop by recursive timer scheduling: an
  attempt; when it fails and the timeout has elapsed the loop ends with the timeout error,
  otherwise it waits one retry interval and tries again. The function is given no way to
  settle a promise, so its timeout error is an exception (\<open>Some\<close> of the message). The
  record \<open>retry\<close> holds the arguments: the elapsed time, the message, and what the closure
  \<open>attemptFunc\<close> of \<open>bindWindowApi\<close> captured.
\<close>

definition attemptFunc :: "retry \<Rightarrow> 'v main_process \<Rightarrow> bool \<times> 'v main_process" where
  "attemptFunc r = attemptBindWindowApi (retry_window r) (retry_class r) (retry_promise r)"

definition retryUntilTimeout ::
  "ipc_config \<Rightarrow> retry \<Rightarrow> 'v main_process \<Rightarrow> string option \<times> 'v main_process" where
  "retryUntilTimeout cfg r st =
     (case attemptFunc r st of
        (True, st') \<Rightarrow> (None, st')
      | (False, st') \<Rightarrow>
          if bindingTimeoutMillis cfg \<le> retry_elapsed r
          then (Some (retry_message r), st')
          else (None,
                st'\<lparr>timers :=
                      timers st' @
                        [r\<lparr>retry_elapsed := retry_elapsed r + retryIntervalMillis cfg\<rparr>]\<rparr>))"

text \<open>Decimal digits of a number, as a template literal prints it.\<close>

fun string_of_nat :: "nat \<Rightarrow> string" where
  "string_of_nat n =
     (if n < 10 then [''0123456789'' ! n]
      else string_of_nat (n div 10) @ [''0123456789'' ! (n mod 10)])"

definition timeoutMessage :: "BrowserWindow \<Rightarrow> string \<Rightarrow> string" where
  "timeoutMessage window apiClassName =
     ''Main timed out waiting to bind to window API '' @ [CHR 0x27] @ apiClassName @
     [CHR 0x27] @ '' (window ID '' @ string_of_nat (window_id window) @ '')''"

text \<open>
  \<open>bindWindowApi\<close> returns a new promise (its index is the first component). The executor
  of the promise receives \<open>resolve\<close> only. An exception thrown while the executor runs
  rejects the promise, as the promise constructor does.
\<close>

definition bindWindowApi ::
  "ipc_config \<Rightarrow> BrowserWindow \<Rightarrow> string \<Rightarrow> 'v main_process \<Rightarrow> nat \<times> 'v main_process" where
  "bindWindowApi cfg window apiClassName st0 =
     (let st1 = installIpcListeners st0;
          p = length (promises st1);
          st = st1\<lparr>promises := promises st1 @ [Pending]\<rparr>
      in case lookup2 (boundWindowApisByWindowID st) (webContents_id window) apiClassName of
           Some boundApi \<Rightarrow> (p, resolve p boundApi st)
         | None \<Rightarrow>
             (case retryUntilTimeout cfg
                     \<lparr>retry_promise = p, retry_window = window, retry_class = apiClassName,
                      retry_elapsed = 0,
                      retry_message = timeoutMessage window apiClassName\<rparr> st of
                (None, st') \<Rightarrow> (p, st')
              | (Some err, st') \<Rightarrow> (p, reject p err st')))"

text \<open>
  The timer of the pending retry number \<open>k\<close> fires. An exception thrown by the callback of
  a timer is caught by nobody.
\<close>

definition fire_timer :: "ipc_config \<Rightarrow> nat \<Rightarrow> 'v main_process \<Rightarrow> 'v main_process" where
  "fire_timer cfg k st0 =
     (if k < length (timers st0)
      then (let r = timers st0 ! k;
                st = st0\<lparr>timers := take k (timers st0) @ drop (Suc k) (timers st0)\<rparr>
            in case retryUntilTimeout cfg r st of
                 (None, st') \<Rightarrow> st'
               | (Some err, st') \<Rightarrow> st'\<lparr>uncaught := uncaught st' @ [err]\<rparr>)
      else st0)"

section \<open>The caller of a main API\<close>

text \<open>
  Modelled from the spec: \<open>bindMainApi\<close> is declared in client_ipc and its body is missing.
  The spec says of a method of a call-style proxy: it encodes every argument, issues a
  request/response call on the channel of the method and awaits the reply; a reply that is
  tagged as a relayed error is re-raised as the reconstructed error; any other reply is
  decoded with the caller's restorer and returned; when the call itself fails, the proxy
  call is rejected with what the transport surfaces, which need not be the thrown value.
\<close>

datatype 'v settled = Resolves 'v | Rejects 'v | TransportFailure

definition call_main_method ::
  "'v Restorer \<Rightarrow> 'v RestorerFunction option \<Rightarrow> string \<Rightarrow> string \<Rightarrow> 'v list \<Rightarrow>
   'v main_process \<Rightarrow> 'v settled \<times> 'v main_process" where
  "call_main_method R windowRestorer apiClassName methodName args st =
     (case ipcMain_invoke R (toIpcName apiClassName methodName)
             (Some (map (makeRestorable R) args)) st of
        None \<Rightarrow> (TransportFailure, st)
      | Some (Failure err, st') \<Rightarrow> (TransportFailure, st')
      | Some (Reply response, st') \<Rightarrow>
          if wasThrownError R response
          then (Rejects (restoreThrownError R response windowRestorer), st')
          else (Resolves (restoreValue R response windowRestorer), st'))"

section \<open>What an exposure installs\<close>

text \<open>
  The method the loop of \<open>exposeMainApi\<close> finds under a name, when it exposes the name,
  and the call of \<open>ipcMain.handle\<close> it then makes. They state what the loop computes.
\<close>

definition exposed_method ::
  "'v ElectronMainApi \<Rightarrow> string \<Rightarrow> ('v list \<Rightarrow> 'v thrown + 'v) option" where
  "exposed_method mainApi methodName =
     (if methodName \<noteq> ''constructor'' \<and> \<not> isPrivateName methodName
      then (case getProperty mainApi methodName of
              Some (Function method) \<Rightarrow> Some method
            | _ \<Rightarrow> None)
      else None)"

definition exposed_handler ::
  "'v ElectronMainApi \<Rightarrow> 'v RestorerFunction option \<Rightarrow> string \<Rightarrow>
   (ipcName \<times> 'v handler_closure) option" where
  "exposed_handler mainApi restorer methodName =
     map_option
       (\<lambda>method. (toIpcName (constructor_name mainApi) methodName,
                   \<lparr>bound_method = method, handler_restorer = restorer\<rparr>))
       (exposed_method mainApi methodName)"

section \<open>Sample objects\<close>

text \<open>
  A restorer over strings that marks what it has done to a value, and an API class in
  the manner of the spec's scenario: \<open>hello\<close> greets a name, is a relayed failure for the
  empty name and a plain failure when the name is missing. The object also has a data
  field, its constructor, and a method with a private name.
\<close>

definition sampleRestorer :: "string Restorer" where
  "sampleRestorer =
     \<lparr>restoreValue = (\<lambda>v restorer. case restorer of None \<Rightarrow> v | Some f \<Rightarrow> f ''String'' v),
      makeRestorable = (\<lambda>v. v @ ''!''),
      makeReturnedError = (\<lambda>e. ''error: '' @ e),
      wasThrownError = (\<lambda>v. take 7 v = ''error: ''),
      restoreThrownError = (\<lambda>v restorer. drop 7 v)\<rparr>"

text \<open>
  A restorer that leaves strings as they are, as the encoding does with plain values, and
  marks a returned error.
\<close>

definition plainRestorer :: "string Restorer" where
  "plainRestorer =
     \<lparr>restoreValue = (\<lambda>v restorer. v),
      makeRestorable = (\<lambda>v. v),
      makeReturnedError = (\<lambda>e. ''error: '' @ e),
      wasThrownError = (\<lambda>v. take 7 v = ''error: ''),
      restoreThrownError = (\<lambda>v restorer. drop 7 v)\<rparr>"

definition hello :: "string list \<Rightarrow> string thrown + string" where
  "hello args =
     (case args of
        [] \<Rightarrow> Inl (Thrown ''no name'')
      | name # _ \<Rightarrow> if name = [] then Inl (RelayedError ''bad name'') else Inr (''Hi, '' @ name))"

definition Greeter :: "string ElectronMainApi" where
  "Greeter =
     \<lparr>constructor_name = ''Greeter'',
      properties =
        [(''greeting'', NonFunction ''Hi, ''),
         (''constructor'', Function (\<lambda>args. Inr ''Greeter'')),
         (''hello'', Function hello),
         (''_count'', Function (\<lambda>args. Inr ''0''))]\<rparr>"

text \<open>
  A window, a configuration (the spec's scenario: timeout 300 ms, retry interval 50 ms),
  and a window API class \<open>Pinger\<close> with one method, as the window registers it.
\<close>

definition sampleWindow :: BrowserWindow where
  "sampleWindow = \<lparr>window_id = 5, webContents_id = 9\<rparr>"

definition sampleConfig :: ipc_config where
  "sampleConfig = \<lparr>bindingTimeoutMillis = 300, retryIntervalMillis = 50\<rparr>"

definition pingerRegistration :: ApiRegistration where
  "pingerRegistration = \<lparr>className = ''Pinger'', methodNames = Some [''ping'']\<rparr>"

definition pingerRequest :: "nat \<times> ipcName \<times> string payload" where
  "pingerRequest = (9, API_REQUEST_IPC, RequestedClass ''Pinger'')"

definition pingerBinding :: ApiBinding where
  "pingerBinding =
     \<lparr>object_id = 0, bound_window = sampleWindow, bound_class = ''Pinger'',
      bound_methods = [''ping'']\<rparr>"

text \<open>
  One bind of \<open>Pinger\<close>, after which the registration of the window arrives.
\<close>

definition pinger_registered :: "string main_process" where
  "pinger_registered =
     ipcMain_emit API_RESPONSE_IPC 9 (Registration pingerRegistration)
       (snd (bindWindowApi sampleConfig sampleWindow ''Pinger'' initial))"

text \<open>
  Two binds of \<open>Pinger\<close> for the same window, one right after the other; then the
  registration arrives, and the retry timers of the two binds fire.
\<close>

definition two_binds :: "string main_process" where
  "two_binds =
     snd (bindWindowApi sampleConfig sampleWindow ''Pinger''
            (snd (bindWindowApi sampleConfig sampleWindow ''Pinger'' initial)))"

definition two_bound :: "string main_process" where
  "two_bound =
     fire_timer sampleConfig 0
       (fire_timer sampleConfig 0
          (ipcMain_emit API_RESPONSE_IPC 9 (Registration pingerRegistration) two_binds))"

text \<open>
  One bind of \<open>Pinger\<close> whose registration never arrives: its retry timer fires six times.
\<close>

definition never_registered :: "string main_process" where
  "never_registered =
     fire_timer sampleConfig 0 (fire_timer sampleConfig 0 (fire_timer sampleConfig 0
       (fire_timer sampleConfig 0 (fire_timer sampleConfig 0 (fire_timer sampleConfig 0
          (snd (bindWindowApi sampleConfig sampleWindow ''Pinger'' initial)))))))"

section \<open>Exposure is idempotent\<close>

lemma installIpcListeners_listening [simp]:
  "listeningForIPC (installIpcListeners st)"
  by (simp add: installIpcListeners_def)

lemma installIpcListeners_idem [simp]:
  "listeningForIPC st \<Longrightarrow> installIpcListeners st = st"
  by (simp add: installIpcListeners_def)

lemma installIpcListeners_fields [simp]:
  "mainApiMap (installIpcListeners st) = mainApiMap st"
  "ipcMain_handle (installIpcListeners st) = ipcMain_handle st"
  "errorLoggerFunc (installIpcListeners st) = errorLoggerFunc st"
  "webContents_send (installIpcListeners st) = webContents_send st"
  "boundWindowApisByWindowID (installIpcListeners st) = boundWindowApisByWindowID st"
  "windowApiMapByWebContentsID (installIpcListeners st) = windowApiMapByWebContentsID st"
  "promises (installIpcListeners st) = promises st"
  "timers (installIpcListeners st) = timers st"
  "uncaught (installIpcListeners st) = uncaught st"
  "next_object (installIpcListeners st) = next_object st"
  "logger_calls (installIpcListeners st) = logger_calls st"
  by (simp_all add: installIpcListeners_def)

lemma exposeMainApi_listening:
  "listeningForIPC (exposeMainApi mainApi restorer st)"
  by (simp add: exposeMainApi_def Let_def split: prod.splits)

lemma exposeMainApi_registered:
  "mainApiMap (exposeMainApi mainApi restorer st) (constructor_name mainApi) \<noteq> None"
  by (simp add: exposeMainApi_def Let_def split: prod.splits)

text \<open>
  C4. Exposing an API whose class name was exposed before changes nothing: the state
  after the second call, with its registration table, its installed handlers and its
  listeners, is the state after the first.
\<close>

theorem exposeMainApi_twice:
  assumes "constructor_name api2 = constructor_name api1"
  shows "exposeMainApi api2 restorer2 (exposeMainApi api1 restorer1 st) =
         exposeMainApi api1 restorer1 st"
proof -
  let ?st1 = "exposeMainApi api1 restorer1 st"
  have listening: "installIpcListeners ?st1 = ?st1"
    by (simp add: exposeMainApi_listening)
  have "mainApiMap ?st1 (constructor_name api2) \<noteq> None"
    using assms exposeMainApi_registered [of api1 restorer1 st] by simp
  then show ?thesis
    unfolding exposeMainApi_def [of api2] Let_def listening by simp
qed

theorem exposeMainApi_twice_witness:
  "constructor_name (Greeter\<lparr>properties := []\<rparr>) = constructor_name Greeter \<and>
   exposeMainApi (Greeter\<lparr>properties := []\<rparr>) None
     (exposeMainApi Greeter None (initial :: string main_process)) =
   exposeMainApi Greeter None initial \<and>
   mainApiMap (exposeMainApi Greeter None (initial :: string main_process)) ''Greeter'' =
     Some [''hello''] \<and>
   map fst (ipcMain_handle (exposeMainApi Greeter None (initial :: string main_process))) =
     [toIpcName ''Greeter'' ''hello'']"
proof -
  have same: "constructor_name (Greeter\<lparr>properties := []\<rparr>) = constructor_name Greeter"
    by simp
  have "mainApiMap (exposeMainApi Greeter None (initial :: string main_process)) ''Greeter'' =
          Some [''hello'']"
    by (simp add: exposeMainApi_def Greeter_def initial_def getPropertyNames_def
                  getProperty_def isPrivateName_def Let_def)
  moreover have
    "map fst (ipcMain_handle (exposeMainApi Greeter None (initial :: string main_process))) =
       [toIpcName ''Greeter'' ''hello'']"
    by (simp add: exposeMainApi_def Greeter_def initial_def getPropertyNames_def
                  getProperty_def isPrivateName_def Let_def)
  ultimately show ?thesis
    using same exposeMainApi_twice [OF same, of None None initial] by simp
qed

section \<open>What the exposure loop computes\<close>

lemma expose_methods_eq:
  "expose_methods mainApi restorer ns (names, handlers) =
     (names @ filter (\<lambda>n. exposed_method mainApi n \<noteq> None) ns,
      handlers @ List.map_filter (exposed_handler mainApi restorer) ns)"
  by (induction ns arbitrary: names handlers)
     (auto simp: exposed_method_def exposed_handler_def List.map_filter_simps
           split: option.splits property.splits)

lemma exposeMainApi_first:
  assumes "mainApiMap st (constructor_name mainApi) = None"
  shows "exposeMainApi mainApi restorer st =
         (installIpcListeners st)
           \<lparr>ipcMain_handle :=
              ipcMain_handle st @
                List.map_filter (exposed_handler mainApi restorer) (getPropertyNames mainApi),
            mainApiMap :=
              (mainApiMap st)
                (constructor_name mainApi \<mapsto>
                   filter (\<lambda>n. exposed_method mainApi n \<noteq> None) (getPropertyNames mainApi))\<rparr>"
  using assms by (simp add: exposeMainApi_def Let_def expose_methods_eq)

lemma channels_map_filter:
  "fst ` set (List.map_filter (exposed_handler mainApi restorer) ns) =
     toIpcName (constructor_name mainApi) ` {n \<in> set ns. exposed_method mainApi n \<noteq> None}"
  by (force simp: List.map_filter_def exposed_handler_def image_iff)

lemma map_of_map_filter:
  "map_of (List.map_filter (exposed_handler mainApi restorer) ns)
      (toIpcName (constructor_name mainApi) n) =
     (if n \<in> set ns then map_option snd (exposed_handler mainApi restorer n) else None)"
  by (induction ns)
     (auto simp: List.map_filter_simps exposed_handler_def toIpcName_def split: option.splits)

lemma map_of_append_fresh:
  "k \<notin> fst ` set xs \<Longrightarrow> (map_of ys ++ map_of xs) k = map_of ys k"
  using map_of_eq_None_iff [of xs k] by (simp add: map_add_def)

lemma exposed_method_names:
  "exposed_method mainApi n \<noteq> None \<Longrightarrow> n \<in> set (getPropertyNames mainApi)"
  by (force simp: exposed_method_def getProperty_def getPropertyNames_def
           dest: map_of_SomeD split: if_splits option.splits property.splits)

lemma ipcMain_invoke_exposed:
  assumes first: "mainApiMap st (constructor_name mainApi) = None"
      and fresh: "toIpcName (constructor_name mainApi) methodName \<notin> fst ` set (ipcMain_handle st)"
      and m: "exposed_method mainApi methodName = Some method"
  shows "ipcMain_invoke R (toIpcName (constructor_name mainApi) methodName) args
           (exposeMainApi mainApi restorer st) =
         Some (handler R \<lparr>bound_method = method, handler_restorer = restorer\<rparr> args
                 (exposeMainApi mainApi restorer st))"
proof -
  have "methodName \<in> set (getPropertyNames mainApi)"
    using m exposed_method_names [of mainApi methodName] by simp
  then have "map_of (ipcMain_handle (exposeMainApi mainApi restorer st))
               (toIpcName (constructor_name mainApi) methodName) =
             Some \<lparr>bound_method = method, handler_restorer = restorer\<rparr>"
    using m fresh
    by (simp add: exposeMainApi_first [OF first] map_of_append_fresh map_of_map_filter
                  exposed_handler_def)
  then show ?thesis by (simp add: ipcMain_invoke_def)
qed

lemma sampleRestorer_simps [simp]:
  "restoreValue sampleRestorer v None = v"
  "restoreValue sampleRestorer v (Some f) = f ''String'' v"
  "makeRestorable sampleRestorer v = v @ ''!''"
  "makeReturnedError sampleRestorer e = ''error: '' @ e"
  by (simp_all add: sampleRestorer_def)

lemma Greeter_first:
  "mainApiMap (initial :: string main_process) (constructor_name Greeter) = None"
  "toIpcName (constructor_name Greeter) n
     \<notin> fst ` set (ipcMain_handle (initial :: string main_process))"
  "mainApiMap (setIpcErrorLogger k initial :: string main_process) (constructor_name Greeter) =
     None"
  "toIpcName (constructor_name Greeter) n
     \<notin> fst ` set (ipcMain_handle (setIpcErrorLogger k initial :: string main_process))"
  by (simp_all add: initial_def setIpcErrorLogger_def)

lemma Greeter_hello:
  "getProperty Greeter ''hello'' = Some (Function hello)"
  "''hello'' \<noteq> ''constructor''"
  "\<not> isPrivateName ''hello''"
  by (simp_all add: Greeter_def getProperty_def isPrivateName_def)

lemma Greeter_name [simp]: "constructor_name Greeter = ''Greeter''"
  by (simp add: Greeter_def)

section \<open>Calls of exposed methods\<close>

text \<open>
  C6. After a class is exposed for the first time, a call message on the channel of one
  of its public methods, on which no handler was installed before, runs the handler that
  the exposure installed: every argument is restored with the restorer given to
  \<open>exposeMainApi\<close>, the method is called with the restored arguments and awaited, and
  when it yields a value the reply is that value made restorable. The state of the main
  process stays as it was.
\<close>

theorem exposed_call_replies:
  assumes first: "mainApiMap st (constructor_name mainApi) = None"
      and fresh: "toIpcName (constructor_name mainApi) methodName \<notin> fst ` set (ipcMain_handle st)"
      and visible: "methodName \<noteq> ''constructor''" "\<not> isPrivateName methodName"
      and func: "getProperty mainApi methodName = Some (Function method)"
      and returns: "method (map (\<lambda>a. restoreValue R a restorer) args) = Inr replyValue"
  shows "ipcMain_invoke R (toIpcName (constructor_name mainApi) methodName) (Some args)
           (exposeMainApi mainApi restorer st) =
         Some (Reply (makeRestorable R replyValue), exposeMainApi mainApi restorer st)"
proof -
  have "exposed_method mainApi methodName = Some method"
    using visible func by (simp add: exposed_method_def)
  from ipcMain_invoke_exposed [OF first fresh this] returns show ?thesis
    by (simp add: handler_def handler_try_def)
qed

theorem exposed_call_replies_witness:
  "ipcMain_invoke sampleRestorer (toIpcName ''Greeter'' ''hello'') (Some [''Ada''])
     (exposeMainApi Greeter (Some (\<lambda>c v. v @ ''?'')) initial) =
   Some (Reply ''Hi, Ada?!'', exposeMainApi Greeter (Some (\<lambda>c v. v @ ''?'')) initial)"
proof -
  have returns:
    "hello (map (\<lambda>a. restoreValue sampleRestorer a (Some (\<lambda>c v. v @ ''?''))) [''Ada'']) =
       Inr ''Hi, Ada?''"
    by (simp add: hello_def)
  from exposed_call_replies
         [OF Greeter_first(1) Greeter_first(2) Greeter_hello(2) Greeter_hello(3)
             Greeter_hello(1) returns]
  show ?thesis by simp
qed

lemma plainRestorer_simps [simp]:
  "restoreValue plainRestorer v r = v"
  "makeRestorable plainRestorer v = v"
  "makeReturnedError plainRestorer e = ''error: '' @ e"
  "wasThrownError plainRestorer v = (take 7 v = ''error: '')"
  "restoreThrownError plainRestorer v r = drop 7 v"
  by (simp_all add: plainRestorer_def)

lemma handler_throws:
  assumes "bound_method h (map (\<lambda>a. restoreValue R a (handler_restorer h)) args) = Inl err"
  shows "handler R h (Some args) st =
           (case err of
              RelayedError e \<Rightarrow> (Reply (makeReturnedError R e), st)
            | _ \<Rightarrow>
                (Failure err,
                 (case errorLoggerFunc st of
                    None \<Rightarrow> st
                  | Some loggerFunc \<Rightarrow>
                      st\<lparr>logger_calls := logger_calls st @ [(loggerFunc, err)]\<rparr>)))"
  using assms
  by (cases err; cases "errorLoggerFunc st") (simp_all add: handler_def handler_try_def)

lemma map_of_append_found:
  "map_of xs k = Some v \<Longrightarrow> (map_of added ++ map_of xs) k = Some v"
  by (simp add: map_add_def)

lemma ipcMain_invoke_later:
  assumes first: "mainApiMap st (constructor_name mainApi) = None"
      and fresh: "toIpcName (constructor_name mainApi) methodName \<notin> fst ` set (ipcMain_handle st)"
      and m: "exposed_method mainApi methodName = Some f"
      and later: "ipcMain_handle st' = ipcMain_handle (exposeMainApi mainApi restorer st) @ added"
  shows "ipcMain_invoke R (toIpcName (constructor_name mainApi) methodName) args st' =
         Some (handler R \<lparr>bound_method = f, handler_restorer = restorer\<rparr> args st')"
proof -
  have "methodName \<in> set (getPropertyNames mainApi)"
    using m exposed_method_names [of mainApi methodName] by simp
  then have "map_of (ipcMain_handle (exposeMainApi mainApi restorer st))
               (toIpcName (constructor_name mainApi) methodName) =
             Some \<lparr>bound_method = f, handler_restorer = restorer\<rparr>"
    using m fresh
    by (simp add: exposeMainApi_first [OF first] map_of_append_fresh map_of_map_filter
                  exposed_handler_def)
  then have "map_of (ipcMain_handle st') (toIpcName (constructor_name mainApi) methodName) =
        Some \<lparr>bound_method = f, handler_restorer = restorer\<rparr>"
    by (simp add: later map_of_append_found)
  then show ?thesis by (simp add: ipcMain_invoke_def)
qed

text \<open>
  C1. Let a class be exposed for the first time, and let \<open>st'\<close> be any state in which
  the handlers that exposure installed are still the first ones (handlers are only ever
  added). A caller's proxy calls a public method with arguments for which the method
  throws. When the thrown value is a \<open>RelayedError\<close>, the handler returns a reply, which
  is \<open>makeReturnedError\<close> of the wrapped value, nothing is logged, and the proxy call is
  rejected with the wrapped value itself, given that the receiving side recognises a
  returned error and reconstructs its payload. When the thrown value is anything else, the
  handler gives it to the error logger once, when a logger is set, and throws it again:
  the call on the channel fails with that value and the proxy call is a transport
  failure; without a logger the state is unchanged.
\<close>

theorem thrown_reaches_caller:
  assumes first: "mainApiMap st (constructor_name mainApi) = None"
      and fresh: "toIpcName (constructor_name mainApi) methodName \<notin> fst ` set (ipcMain_handle st)"
      and visible: "methodName \<noteq> ''constructor''" "\<not> isPrivateName methodName"
      and func: "getProperty mainApi methodName = Some (Function f)"
      and later: "ipcMain_handle st' = ipcMain_handle (exposeMainApi mainApi restorer st) @ added"
      and throws: "f (map (\<lambda>a. restoreValue R a restorer) (map (makeRestorable R) args)) =
                     Inl err"
      and tagged: "\<And>e. wasThrownError R (makeReturnedError R e)"
      and roundtrip: "\<And>e. restoreThrownError R (makeReturnedError R e) windowRestorer = e"
  shows "ipcMain_invoke R (toIpcName (constructor_name mainApi) methodName)
           (Some (map (makeRestorable R) args)) st' =
         Some
           (case err of
              RelayedError e \<Rightarrow> (Reply (makeReturnedError R e), st')
            | _ \<Rightarrow>
                (Failure err,
                 (case errorLoggerFunc st' of
                    None \<Rightarrow> st'
                  | Some loggerFunc \<Rightarrow>
                      st'\<lparr>logger_calls := logger_calls st' @ [(loggerFunc, err)]\<rparr>))) \<and>
         call_main_method R windowRestorer (constructor_name mainApi) methodName args st' =
           (case err of
              RelayedError e \<Rightarrow> (Rejects e, st')
            | _ \<Rightarrow>
                (TransportFailure,
                 (case errorLoggerFunc st' of
                    None \<Rightarrow> st'
                  | Some loggerFunc \<Rightarrow>
                      st'\<lparr>logger_calls := logger_calls st' @ [(loggerFunc, err)]\<rparr>)))"
proof -
  have m: "exposed_method mainApi methodName = Some f"
    using visible func by (simp add: exposed_method_def)
  have invoke:
    "ipcMain_invoke R (toIpcName (constructor_name mainApi) methodName)
       (Some (map (makeRestorable R) args)) st' =
     Some (handler R \<lparr>bound_method = f, handler_restorer = restorer\<rparr>
             (Some (map (makeRestorable R) args)) st')"
    by (rule ipcMain_invoke_later [OF first fresh m later])
  have thrown:
    "bound_method \<lparr>bound_method = f, handler_restorer = restorer\<rparr>
       (map (\<lambda>a. restoreValue R a
                   (handler_restorer \<lparr>bound_method = f, handler_restorer = restorer\<rparr>))
          (map (makeRestorable R) args)) = Inl err"
    using throws by simp
  show ?thesis
    unfolding call_main_method_def invoke handler_throws [OF thrown]
    by (cases err) (simp_all add: tagged roundtrip)
qed

theorem thrown_reaches_caller_witness:
  "call_main_method plainRestorer None ''Greeter'' ''hello'' [[]]
     (setIpcErrorLogger 7 (exposeMainApi Greeter None initial)) =
   (Rejects ''bad name'', setIpcErrorLogger 7 (exposeMainApi Greeter None initial)) \<and>
   call_main_method plainRestorer None ''Greeter'' ''hello'' []
     (setIpcErrorLogger 7 (exposeMainApi Greeter None initial)) =
   (TransportFailure,
    (setIpcErrorLogger 7 (exposeMainApi Greeter None initial))
      \<lparr>logger_calls := [(7, Thrown ''no name'')]\<rparr>) \<and>
   ipcMain_invoke plainRestorer (toIpcName ''Greeter'' ''hello'') (Some [])
     (setIpcErrorLogger 7 (exposeMainApi Greeter None initial)) =
   Some (Failure (Thrown ''no name''),
         (setIpcErrorLogger 7 (exposeMainApi Greeter None initial))
           \<lparr>logger_calls := [(7, Thrown ''no name'')]\<rparr>)"
proof -
  let ?st' = "setIpcErrorLogger 7 (exposeMainApi Greeter None (initial :: string main_process))"
  have later: "ipcMain_handle ?st' = ipcMain_handle (exposeMainApi Greeter None initial) @ []"
    by (simp add: setIpcErrorLogger_def)
  have relayed:
    "hello (map (\<lambda>a. restoreValue plainRestorer a None) (map (makeRestorable plainRestorer) [[]])) =
       Inl (RelayedError ''bad name'')"
    by (simp add: hello_def)
  have plain:
    "hello (map (\<lambda>a. restoreValue plainRestorer a None) (map (makeRestorable plainRestorer) [])) =
       Inl (Thrown ''no name'')"
    by (simp add: hello_def)
  have tagged: "\<And>e. wasThrownError plainRestorer (makeReturnedError plainRestorer e)"
    by simp
  have roundtrip:
    "\<And>e. restoreThrownError plainRestorer (makeReturnedError plainRestorer e) None = e"
    by simp
  have logger: "errorLoggerFunc ?st' = Some 7"
    by (simp add: setIpcErrorLogger_def)
  have logs: "logger_calls ?st' = []"
    by (simp add: exposeMainApi_def setIpcErrorLogger_def initial_def Let_def
             split: prod.splits)
  from thrown_reaches_caller
         [OF Greeter_first(1) Greeter_first(2) Greeter_hello(2) Greeter_hello(3)
             Greeter_hello(1) later relayed tagged roundtrip]
       thrown_reaches_caller
         [OF Greeter_first(1) Greeter_first(2) Greeter_hello(2) Greeter_hello(3)
             Greeter_hello(1) later plain tagged roundtrip]
  show ?thesis
    by (simp add: logger logs)
qed

section \<open>Which properties are exposed\<close>

text \<open>
  C8. When a class is exposed for the first time, its registration lists no name that
  starts with \<open>_\<close> or \<open>#\<close>, and a channel of such a name that had no handler has none
  afterwards. Every other method of the object, that is every property other than
  \<open>constructor\<close> whose value is a function, is listed and has its handler installed on
  its channel. (\<open>constructor\<close> refers to the class, it is not a method of the API; C10 is about
  it.)
\<close>

theorem private_names_not_exposed:
  assumes first: "mainApiMap st (constructor_name mainApi) = None"
  shows "\<exists>names.
           mainApiMap (exposeMainApi mainApi restorer st) (constructor_name mainApi) = Some names \<and>
           (\<forall>n. isPrivateName n \<longrightarrow>
                n \<notin> set names \<and>
                (toIpcName (constructor_name mainApi) n \<notin> fst ` set (ipcMain_handle st) \<longrightarrow>
                 toIpcName (constructor_name mainApi) n
                   \<notin> fst ` set (ipcMain_handle (exposeMainApi mainApi restorer st)))) \<and>
           (\<forall>n method.
                getProperty mainApi n = Some (Function method) \<and> n \<noteq> ''constructor'' \<and>
                \<not> isPrivateName n \<longrightarrow>
                n \<in> set names \<and>
                (toIpcName (constructor_name mainApi) n,
                 \<lparr>bound_method = method, handler_restorer = restorer\<rparr>)
                  \<in> set (ipcMain_handle (exposeMainApi mainApi restorer st)))"
proof -
  let ?names = "filter (\<lambda>n. exposed_method mainApi n \<noteq> None) (getPropertyNames mainApi)"
  have names: "mainApiMap (exposeMainApi mainApi restorer st) (constructor_name mainApi) =
                 Some ?names"
    by (simp add: exposeMainApi_first [OF first])
  have handlers: "ipcMain_handle (exposeMainApi mainApi restorer st) =
                    ipcMain_handle st @
                      List.map_filter (exposed_handler mainApi restorer) (getPropertyNames mainApi)"
    by (simp add: exposeMainApi_first [OF first])
  have hidden: "n \<notin> set ?names \<and>
        (toIpcName (constructor_name mainApi) n \<notin> fst ` set (ipcMain_handle st) \<longrightarrow>
         toIpcName (constructor_name mainApi) n
           \<notin> fst ` set (ipcMain_handle (exposeMainApi mainApi restorer st)))"
    if "isPrivateName n" for n
  proof -
    have none: "exposed_method mainApi n = None"
      using that by (simp add: exposed_method_def)
    then have "toIpcName (constructor_name mainApi) n \<notin>
                 fst ` set (List.map_filter (exposed_handler mainApi restorer)
                              (getPropertyNames mainApi))"
      by (auto simp: channels_map_filter toIpcName_def)
    with none show ?thesis
      by (simp add: handlers image_Un)
  qed
  have callable: "n \<in> set ?names \<and>
        (toIpcName (constructor_name mainApi) n,
         \<lparr>bound_method = f, handler_restorer = restorer\<rparr>)
          \<in> set (ipcMain_handle (exposeMainApi mainApi restorer st))"
    if "getProperty mainApi n = Some (Function f)" "n \<noteq> ''constructor''"
       "\<not> isPrivateName n" for n f
  proof -
    have m: "exposed_method mainApi n = Some f"
      using that by (simp add: exposed_method_def)
    then have n: "n \<in> set (getPropertyNames mainApi)"
      using exposed_method_names [of mainApi n] by simp
    have "exposed_handler mainApi restorer n =
            Some (toIpcName (constructor_name mainApi) n,
                  \<lparr>bound_method = f, handler_restorer = restorer\<rparr>)"
      using m by (simp add: exposed_handler_def)
    with n have "(toIpcName (constructor_name mainApi) n,
                  \<lparr>bound_method = f, handler_restorer = restorer\<rparr>)
                   \<in> set (List.map_filter (exposed_handler mainApi restorer)
                            (getPropertyNames mainApi))"
      by (force simp: List.map_filter_def)
    with m n show ?thesis
      by (simp add: handlers)
  qed
  from names hidden callable show ?thesis by blast
qed

theorem private_names_not_exposed_witness:
  "\<exists>names.
     mainApiMap (exposeMainApi Greeter None (initial :: string main_process)) ''Greeter'' =
       Some names \<and>
     ''_count'' \<notin> set names \<and>
     toIpcName ''Greeter'' ''_count''
       \<notin> fst ` set (ipcMain_handle (exposeMainApi Greeter None (initial :: string main_process))) \<and>
     ''hello'' \<in> set names \<and>
     (toIpcName ''Greeter'' ''hello'', \<lparr>bound_method = hello, handler_restorer = None\<rparr>)
       \<in> set (ipcMain_handle (exposeMainApi Greeter None (initial :: string main_process)))"
proof -
  from private_names_not_exposed [of initial Greeter None]
  obtain names where
    names: "mainApiMap (exposeMainApi Greeter None (initial :: string main_process))
              (constructor_name Greeter) = Some names"
    and hidden: "\<And>n. isPrivateName n \<Longrightarrow>
          n \<notin> set names \<and>
          (toIpcName (constructor_name Greeter) n
             \<notin> fst ` set (ipcMain_handle (initial :: string main_process)) \<longrightarrow>
           toIpcName (constructor_name Greeter) n
             \<notin> fst ` set (ipcMain_handle
                           (exposeMainApi Greeter None (initial :: string main_process))))"
    and callable: "\<And>n method.
          getProperty Greeter n = Some (Function method) \<and> n \<noteq> ''constructor'' \<and>
          \<not> isPrivateName n \<Longrightarrow>
          n \<in> set names \<and>
          (toIpcName (constructor_name Greeter) n,
           \<lparr>bound_method = method, handler_restorer = None\<rparr>)
            \<in> set (ipcMain_handle (exposeMainApi Greeter None (initial :: string main_process)))"
    using Greeter_first(1) by blast
  have "isPrivateName ''_count''"
    by (simp add: isPrivateName_def)
  from hidden [OF this] callable [of "''hello''" hello] names Greeter_hello Greeter_first(2)
  show ?thesis
    by simp
qed

text \<open>
  C10. When a class is exposed for the first time, every name in its registration is a
  property name of the object, is not \<open>constructor\<close>, does not start with \<open>_\<close> or \<open>#\<close>,
  and names a property whose value is a function. The name \<open>constructor\<close> and every name
  whose property is not a function are not in the registration, and a channel of such a
  name that had no handler has none afterwards.
\<close>

theorem only_public_functions_registered:
  assumes first: "mainApiMap st (constructor_name mainApi) = None"
  shows "\<exists>names.
           mainApiMap (exposeMainApi mainApi restorer st) (constructor_name mainApi) = Some names \<and>
           (\<forall>n \<in> set names.
                n \<in> set (getPropertyNames mainApi) \<and> n \<noteq> ''constructor'' \<and>
                \<not> isPrivateName n \<and> (\<exists>method. getProperty mainApi n = Some (Function method))) \<and>
           (\<forall>n. n = ''constructor'' \<or> (\<exists>v. getProperty mainApi n = Some (NonFunction v)) \<longrightarrow>
                n \<notin> set names \<and>
                (toIpcName (constructor_name mainApi) n \<notin> fst ` set (ipcMain_handle st) \<longrightarrow>
                 toIpcName (constructor_name mainApi) n
                   \<notin> fst ` set (ipcMain_handle (exposeMainApi mainApi restorer st))))"
proof -
  let ?names = "filter (\<lambda>n. exposed_method mainApi n \<noteq> None) (getPropertyNames mainApi)"
  have names: "mainApiMap (exposeMainApi mainApi restorer st) (constructor_name mainApi) =
                 Some ?names"
    by (simp add: exposeMainApi_first [OF first])
  have handlers: "ipcMain_handle (exposeMainApi mainApi restorer st) =
                    ipcMain_handle st @
                      List.map_filter (exposed_handler mainApi restorer) (getPropertyNames mainApi)"
    by (simp add: exposeMainApi_first [OF first])
  have registered: "n \<in> set (getPropertyNames mainApi) \<and> n \<noteq> ''constructor'' \<and>
        \<not> isPrivateName n \<and> (\<exists>method. getProperty mainApi n = Some (Function method))"
    if "n \<in> set ?names" for n
    using that
    by (auto simp: exposed_method_def split: if_splits option.splits property.splits)
  have excluded: "n \<notin> set ?names \<and>
        (toIpcName (constructor_name mainApi) n \<notin> fst ` set (ipcMain_handle st) \<longrightarrow>
         toIpcName (constructor_name mainApi) n
           \<notin> fst ` set (ipcMain_handle (exposeMainApi mainApi restorer st)))"
    if "n = ''constructor'' \<or> (\<exists>v. getProperty mainApi n = Some (NonFunction v))" for n
  proof -
    have none: "exposed_method mainApi n = None"
      using that by (auto simp: exposed_method_def)
    then have "toIpcName (constructor_name mainApi) n \<notin>
                 fst ` set (List.map_filter (exposed_handler mainApi restorer)
                              (getPropertyNames mainApi))"
      by (auto simp: channels_map_filter toIpcName_def)
    with none show ?thesis
      by (simp add: handlers image_Un)
  qed
  from names registered excluded show ?thesis by blast
qed

theorem only_public_functions_registered_witness:
  "\<exists>names.
     mainApiMap (exposeMainApi Greeter None (initial :: string main_process)) ''Greeter'' =
       Some names \<and>
     ''constructor'' \<notin> set names \<and> ''greeting'' \<notin> set names \<and>
     toIpcName ''Greeter'' ''constructor''
       \<notin> fst ` set (ipcMain_handle (exposeMainApi Greeter None (initial :: string main_process))) \<and>
     toIpcName ''Greeter'' ''greeting''
       \<notin> fst ` set (ipcMain_handle (exposeMainApi Greeter None (initial :: string main_process)))"
proof -
  from only_public_functions_registered [of initial Greeter None]
  obtain names where
    names: "mainApiMap (exposeMainApi Greeter None (initial :: string main_process))
              (constructor_name Greeter) = Some names"
    and excluded: "\<And>n. n = ''constructor'' \<or> (\<exists>v. getProperty Greeter n = Some (NonFunction v)) \<Longrightarrow>
          n \<notin> set names \<and>
          (toIpcName (constructor_name Greeter) n
             \<notin> fst ` set (ipcMain_handle (initial :: string main_process)) \<longrightarrow>
           toIpcName (constructor_name Greeter) n
             \<notin> fst ` set (ipcMain_handle
                           (exposeMainApi Greeter None (initial :: string main_process))))"
    using Greeter_first(1) by blast
  have "getProperty Greeter ''greeting'' = Some (NonFunction ''Hi, '')"
    by (simp add: Greeter_def getProperty_def)
  then have "\<exists>v. getProperty Greeter ''greeting'' = Some (NonFunction v)"
    by blast
  from excluded [of "''constructor''"] excluded [of "''greeting''"] this names
       Greeter_first(2)
  show ?thesis
    by simp
qed

section \<open>Discovery requests\<close>

lemma exposeMainApi_listens:
  assumes "listeningForIPC st \<longrightarrow> API_REQUEST_IPC \<in> set (ipcMain_on st)"
  shows "API_REQUEST_IPC \<in> set (ipcMain_on (exposeMainApi mainApi restorer st))"
  using assms
  by (auto simp: exposeMainApi_def installIpcListeners_def Let_def split: prod.splits)

lemma Greeter_listening:
  "API_REQUEST_IPC \<in> set (ipcMain_on (exposeMainApi Greeter None (initial :: string main_process)))"
  by (simp add: exposeMainApi_def initial_def installIpcListeners_def Let_def split: prod.splits)

lemma Greeter_exposed:
  "mainApiMap (exposeMainApi Greeter None (initial :: string main_process)) =
     [''Greeter'' \<mapsto> [''hello'']]"
  by (simp add: exposeMainApi_def Greeter_def initial_def getPropertyNames_def
                getProperty_def isPrivateName_def Let_def)

lemma Greeter_sends:
  "webContents_send (exposeMainApi Greeter None (initial :: string main_process)) = []"
  by (simp add: exposeMainApi_def initial_def Let_def split: prod.splits)

text \<open>
  C5, as stated, fails: after \<open>Greeter\<close> has been exposed, a discovery request from web
  contents 9 for the class \<open>Pinger\<close>, which was never exposed, is answered. One message
  goes to the requester on the response channel, a registration that names \<open>Pinger\<close> and
  has no method names.
\<close>

theorem unexposed_class_answered_counterexample:
  "mainApiMap (exposeMainApi Greeter None (initial :: string main_process)) ''Pinger'' = None \<and>
   webContents_send
     (ipcMain_emit API_REQUEST_IPC 9 (RequestedClass ''Pinger'')
        (exposeMainApi Greeter None (initial :: string main_process))) =
     [(9, API_RESPONSE_IPC, Registration \<lparr>className = ''Pinger'', methodNames = None\<rparr>)]"
  by (simp add: Greeter_listening on_API_REQUEST_IPC_def Greeter_exposed Greeter_sends)

text \<open>
  C5, amended. Once the discovery listener is installed, every discovery request is
  answered by exactly one message to the requester on the response channel: a
  registration that pairs the requested class name with the entry of the registration
  table for it. For an exposed class that is the list of its registered method names;
  for a class that was never exposed the registration carries no method names
  (\<open>undefined\<close>). Nothing else changes.
\<close>

theorem discovery_request_answered:
  assumes "API_REQUEST_IPC \<in> set (ipcMain_on st)"
  shows "ipcMain_emit API_REQUEST_IPC sender (RequestedClass apiClassName) st =
         st\<lparr>webContents_send :=
              webContents_send st @
                [(sender, API_RESPONSE_IPC,
                  Registration \<lparr>className = apiClassName,
                                methodNames = mainApiMap st apiClassName\<rparr>)]\<rparr>"
  using assms by (simp add: on_API_REQUEST_IPC_def)

theorem discovery_request_answered_witness:
  "webContents_send
     (ipcMain_emit API_REQUEST_IPC 9 (RequestedClass ''Greeter'')
        (exposeMainApi Greeter None (initial :: string main_process))) =
     [(9, API_RESPONSE_IPC,
       Registration \<lparr>className = ''Greeter'', methodNames = Some [''hello'']\<rparr>)]"
  using discovery_request_answered [OF Greeter_listening, of 9 "''Greeter''"]
  by (simp add: Greeter_exposed Greeter_sends)

section \<open>Binding\<close>

lemma bindWindowApi_cached:
  assumes "lookup2 (boundWindowApisByWindowID st) (webContents_id window) apiClassName =
             Some boundApi"
  shows "bindWindowApi cfg window apiClassName st =
           (length (promises st),
            (installIpcListeners st)\<lparr>promises := promises st @ [Resolved boundApi]\<rparr>)"
  using assms by (simp add: bindWindowApi_def Let_def resolve_def)

lemma pinger_registered_eval:
  "lookup2 (windowApiMapByWebContentsID pinger_registered) (webContents_id sampleWindow)
     ''Pinger'' = Some [''ping'']"
  "promises pinger_registered = [Pending]"
  "webContents_send pinger_registered = [pingerRequest]"
  "next_object pinger_registered = 0"
  "length (timers pinger_registered) = 1"
  by (simp_all add: pinger_registered_def bindWindowApi_def installIpcListeners_def
        initial_def Let_def on_API_RESPONSE_IPC_def pingerRegistration_def
        lookup2_def retryUntilTimeout_def attemptFunc_def attemptBindWindowApi_def
        sampleConfig_def sampleWindow_def pingerRequest_def)

lemma pinger_bound_eval:
  "lookup2 (boundWindowApisByWindowID (fire_timer sampleConfig 0 pinger_registered))
     (webContents_id sampleWindow) ''Pinger'' = Some pingerBinding"
  "promises (fire_timer sampleConfig 0 pinger_registered) = [Resolved pingerBinding]"
  "webContents_send (fire_timer sampleConfig 0 pinger_registered) = [pingerRequest]"
  "timers (fire_timer sampleConfig 0 pinger_registered) = []"
  by (simp_all add: pinger_registered_def bindWindowApi_def installIpcListeners_def
        initial_def Let_def on_API_RESPONSE_IPC_def pingerRegistration_def fire_timer_def
        lookup2_def retryUntilTimeout_def attemptFunc_def attemptBindWindowApi_def resolve_def
        sampleConfig_def sampleWindow_def pingerRequest_def pingerBinding_def)

text \<open>
  C7. When the table of bound APIs has an entry for the web contents of the window and
  the class name, \<open>bindWindowApi\<close> returns a promise that is already resolved with that
  entry. No message is sent, no retry is scheduled, and the table is unchanged; the only
  other effect is that the discovery listeners are installed if they were not.
\<close>

theorem bind_cached:
  assumes "lookup2 (boundWindowApisByWindowID st) (webContents_id window) apiClassName =
             Some boundApi"
  shows "fst (bindWindowApi cfg window apiClassName st) = length (promises st) \<and>
         snd (bindWindowApi cfg window apiClassName st) =
           (installIpcListeners st)\<lparr>promises := promises st @ [Resolved boundApi]\<rparr> \<and>
         webContents_send (snd (bindWindowApi cfg window apiClassName st)) = webContents_send st \<and>
         timers (snd (bindWindowApi cfg window apiClassName st)) = timers st \<and>
         boundWindowApisByWindowID (snd (bindWindowApi cfg window apiClassName st)) =
           boundWindowApisByWindowID st"
  by (simp add: bindWindowApi_cached [OF assms])

theorem bind_cached_witness:
  "promises (snd (bindWindowApi sampleConfig sampleWindow ''Pinger''
                    (fire_timer sampleConfig 0 pinger_registered))) =
     [Resolved pingerBinding, Resolved pingerBinding] \<and>
   webContents_send (snd (bindWindowApi sampleConfig sampleWindow ''Pinger''
                            (fire_timer sampleConfig 0 pinger_registered))) = [pingerRequest] \<and>
   timers (snd (bindWindowApi sampleConfig sampleWindow ''Pinger''
                  (fire_timer sampleConfig 0 pinger_registered))) = []"
  using bind_cached [OF pinger_bound_eval(1), of sampleConfig]
  by (simp add: pinger_bound_eval)

lemma call_bound_method_sends:
  assumes "methodName \<in> set (bound_methods boundApi)"
  shows "call_bound_method R boundApi methodName args st =
           (Inr (),
            st\<lparr>webContents_send :=
                 webContents_send st @
                   [(webContents_id (bound_window boundApi),
                     toIpcName (bound_class boundApi) methodName, Arguments args)]\<rparr>)"
  using assms by (simp add: call_bound_method_def Let_def)


section \<open>Binds that overlap\<close>

lemma two_bound_eval:
  "promises two_bound =
     [Resolved \<lparr>object_id = 0, bound_window = sampleWindow, bound_class = ''Pinger'',
                bound_methods = [''ping'']\<rparr>,
      Resolved \<lparr>object_id = 1, bound_window = sampleWindow, bound_class = ''Pinger'',
                bound_methods = [''ping'']\<rparr>]"
  "webContents_send two_bound = [pingerRequest, pingerRequest]"
  "timers two_bound = []"
  by (simp_all add: two_bound_def two_binds_def bindWindowApi_def installIpcListeners_def
        initial_def Let_def fire_timer_def on_API_RESPONSE_IPC_def pingerRegistration_def
        lookup2_def retryUntilTimeout_def attemptFunc_def attemptBindWindowApi_def resolve_def
        sampleConfig_def sampleWindow_def pingerRequest_def)

text \<open>
  C2, as stated, fails: two binds of \<open>Pinger\<close> for the same window, made before the
  registration of the window has arrived, put two discovery requests on the wire, and
  when the registration is there and their retries run, the two promises are resolved
  with two objects, the first and the second object created.
\<close>

theorem concurrent_binds_counterexample:
  "webContents_send two_bound = [pingerRequest, pingerRequest] \<and>
   promises two_bound =
     [Resolved \<lparr>object_id = 0, bound_window = sampleWindow, bound_class = ''Pinger'',
                bound_methods = [''ping'']\<rparr>,
      Resolved \<lparr>object_id = 1, bound_window = sampleWindow, bound_class = ''Pinger'',
                bound_methods = [''ping'']\<rparr>] \<and>
   promises two_bound ! 0 \<noteq> promises two_bound ! 1"
  by (simp add: two_bound_eval)

lemma attempt_unregistered:
  assumes "lookup2 (windowApiMapByWebContentsID st) (webContents_id window) apiClassName = None"
  shows "attemptBindWindowApi window apiClassName p st =
           (False,
            st\<lparr>webContents_send :=
                 webContents_send st @
                   [(webContents_id window, API_REQUEST_IPC, RequestedClass apiClassName)]\<rparr>)"
  using assms by (simp add: attemptBindWindowApi_def)

lemma attempt_then_bind:
  assumes registered:
        "lookup2 (windowApiMapByWebContentsID st) (webContents_id window) apiClassName =
           Some names"
      and pending: "p < length (promises st)" "promises st ! p = Pending"
  shows "\<exists>boundApi.
           fst (attemptBindWindowApi window apiClassName p st) \<and>
           object_id boundApi = next_object st \<and>
           promises (snd (attemptBindWindowApi window apiClassName p st)) ! p =
             Resolved boundApi \<and>
           lookup2 (boundWindowApisByWindowID (snd (attemptBindWindowApi window apiClassName p st)))
             (webContents_id window) apiClassName = Some boundApi \<and>
           webContents_send (snd (attemptBindWindowApi window apiClassName p st)) =
             webContents_send st \<and>
           promises
             (snd (bindWindowApi cfg window apiClassName
                     (snd (attemptBindWindowApi window apiClassName p st)))) !
             fst (bindWindowApi cfg window apiClassName
                    (snd (attemptBindWindowApi window apiClassName p st))) =
             Resolved boundApi \<and>
           webContents_send
             (snd (bindWindowApi cfg window apiClassName
                     (snd (attemptBindWindowApi window apiClassName p st)))) =
             webContents_send st \<and>
           timers
             (snd (bindWindowApi cfg window apiClassName
                     (snd (attemptBindWindowApi window apiClassName p st)))) =
             timers st"
proof -
  let ?boundApi = "\<lparr>object_id = next_object st, bound_window = window,
                     bound_class = apiClassName, bound_methods = names\<rparr>"
  let ?st1 = "snd (attemptBindWindowApi window apiClassName p st)"
  have ok: "fst (attemptBindWindowApi window apiClassName p st)"
    using registered by (simp add: attemptBindWindowApi_def Let_def)
  have resolved: "promises ?st1 ! p = Resolved ?boundApi"
    using registered pending by (simp add: attemptBindWindowApi_def Let_def resolve_def)
  have cached: "lookup2 (boundWindowApisByWindowID ?st1) (webContents_id window) apiClassName =
                  Some ?boundApi"
    using registered by (simp add: attemptBindWindowApi_def Let_def resolve_def lookup2_def)
  have sends: "webContents_send ?st1 = webContents_send st"
    using registered by (simp add: attemptBindWindowApi_def Let_def resolve_def)
  have pending_timers: "timers ?st1 = timers st"
    using registered by (simp add: attemptBindWindowApi_def Let_def resolve_def)
  from sends pending_timers
  have "promises (snd (bindWindowApi cfg window apiClassName ?st1)) !
          fst (bindWindowApi cfg window apiClassName ?st1) = Resolved ?boundApi"
       "webContents_send (snd (bindWindowApi cfg window apiClassName ?st1)) = webContents_send st"
       "timers (snd (bindWindowApi cfg window apiClassName ?st1)) = timers st"
    by (simp_all add: bindWindowApi_cached [OF cached])
  with ok resolved cached sends show ?thesis
    by (intro exI [of _ ?boundApi]) simp
qed

text \<open>
  C2, amended. The table of bound APIs holds one object for a window and a class name.
  An attempt to bind without the registration fails and sends one discovery request. An
  attempt that finds the registration creates a new object, stores it in the table,
  resolves its promise with it and sends nothing; a bind of the same window and class
  made after that resolves at once with the identical object, sends no discovery request
  and schedules no retry. Binds that overlap before the registration arrives are not
  merged: each makes its own attempts.
\<close>

theorem bind_after_bound:
  assumes pending: "p < length (promises st)" "promises st ! p = Pending"
  shows "(lookup2 (windowApiMapByWebContentsID st) (webContents_id window) apiClassName = None \<longrightarrow>
            attemptBindWindowApi window apiClassName p st =
              (False,
               st\<lparr>webContents_send :=
                    webContents_send st @
                      [(webContents_id window, API_REQUEST_IPC, RequestedClass apiClassName)]\<rparr>)) \<and>
         (\<forall>names.
            lookup2 (windowApiMapByWebContentsID st) (webContents_id window) apiClassName =
              Some names \<longrightarrow>
            (\<exists>boundApi.
               fst (attemptBindWindowApi window apiClassName p st) \<and>
               object_id boundApi = next_object st \<and>
               promises (snd (attemptBindWindowApi window apiClassName p st)) ! p =
                 Resolved boundApi \<and>
               lookup2
                 (boundWindowApisByWindowID (snd (attemptBindWindowApi window apiClassName p st)))
                 (webContents_id window) apiClassName = Some boundApi \<and>
               webContents_send (snd (attemptBindWindowApi window apiClassName p st)) =
                 webContents_send st \<and>
               promises
                 (snd (bindWindowApi cfg window apiClassName
                         (snd (attemptBindWindowApi window apiClassName p st)))) !
                 fst (bindWindowApi cfg window apiClassName
                        (snd (attemptBindWindowApi window apiClassName p st))) =
                 Resolved boundApi \<and>
               webContents_send
                 (snd (bindWindowApi cfg window apiClassName
                         (snd (attemptBindWindowApi window apiClassName p st)))) =
                 webContents_send st \<and>
               timers
                 (snd (bindWindowApi cfg window apiClassName
                         (snd (attemptBindWindowApi window apiClassName p st)))) =
                 timers st))"
  using attempt_unregistered [of st window apiClassName p]
        attempt_then_bind [OF _ pending, of window apiClassName _ cfg]
  by blast

theorem bind_after_bound_witness:
  "\<exists>boundApi.
     object_id boundApi = 0 \<and>
     promises (snd (attemptBindWindowApi sampleWindow ''Pinger'' 0 pinger_registered)) ! 0 =
       Resolved boundApi \<and>
     promises
       (snd (bindWindowApi sampleConfig sampleWindow ''Pinger''
               (snd (attemptBindWindowApi sampleWindow ''Pinger'' 0 pinger_registered)))) !
       fst (bindWindowApi sampleConfig sampleWindow ''Pinger''
              (snd (attemptBindWindowApi sampleWindow ''Pinger'' 0 pinger_registered))) =
       Resolved boundApi \<and>
     webContents_send
       (snd (bindWindowApi sampleConfig sampleWindow ''Pinger''
               (snd (attemptBindWindowApi sampleWindow ''Pinger'' 0 pinger_registered)))) =
       [pingerRequest]"
proof -
  have pending: "0 < length (promises pinger_registered)" "promises pinger_registered ! 0 = Pending"
    by (simp_all add: pinger_registered_eval)
  from bind_after_bound [OF pending, of sampleWindow "''Pinger''" sampleConfig]
       pinger_registered_eval(1)
  obtain boundApi where
    "object_id boundApi = next_object pinger_registered"
    "promises (snd (attemptBindWindowApi sampleWindow ''Pinger'' 0 pinger_registered)) ! 0 =
       Resolved boundApi"
    "promises
       (snd (bindWindowApi sampleConfig sampleWindow ''Pinger''
               (snd (attemptBindWindowApi sampleWindow ''Pinger'' 0 pinger_registered)))) !
       fst (bindWindowApi sampleConfig sampleWindow ''Pinger''
              (snd (attemptBindWindowApi sampleWindow ''Pinger'' 0 pinger_registered))) =
       Resolved boundApi"
    "webContents_send
       (snd (bindWindowApi sampleConfig sampleWindow ''Pinger''
               (snd (attemptBindWindowApi sampleWindow ''Pinger'' 0 pinger_registered)))) =
       webContents_send pinger_registered"
    by blast
  then show ?thesis
    by (intro exI [of _ boundApi]) (simp add: pinger_registered_eval)
qed

section \<open>The timeout of a bind\<close>

lemma never_registered_eval:
  "promises never_registered = [Pending]"
  "timers never_registered = []"
  "uncaught never_registered = [timeoutMessage sampleWindow ''Pinger'']"
  "length (webContents_send never_registered) = 7"
  by (simp_all add: never_registered_def bindWindowApi_def installIpcListeners_def
        initial_def Let_def fire_timer_def
        lookup2_def retryUntilTimeout_def attemptFunc_def attemptBindWindowApi_def resolve_def
        sampleConfig_def)

lemma sample_timeoutMessage:
  "timeoutMessage sampleWindow ''Pinger'' =
     ''Main timed out waiting to bind to window API 'Pinger' (window ID 5)''"
  by (simp add: timeoutMessage_def sampleWindow_def)

text \<open>
  C3, as stated, fails: with a timeout of 300 ms and retries every 50 ms, a bind whose
  registration never arrives makes seven attempts; the sixth retry ends the loop with the
  timeout error, which is thrown out of the timer callback. No retry is left, and the
  promise the bind returned is still pending: it is not rejected.
\<close>

theorem timeout_not_rejected_counterexample:
  "promises never_registered = [Pending] \<and>
   timers never_registered = [] \<and>
   uncaught never_registered =
     [''Main timed out waiting to bind to window API 'Pinger' (window ID 5)'']"
  by (simp add: never_registered_eval sample_timeoutMessage)

lemma fire_timer_unregistered:
  assumes ts: "timers s = ts @ [r]"
      and none: "lookup2 (windowApiMapByWebContentsID s) (webContents_id (retry_window r))
                   (retry_class r) = None"
  shows "timers (fire_timer cfg (length ts) s) =
           (if bindingTimeoutMillis cfg \<le> retry_elapsed r then ts
            else ts @ [r\<lparr>retry_elapsed := retry_elapsed r + retryIntervalMillis cfg\<rparr>])"
    and "uncaught (fire_timer cfg (length ts) s) =
           (if bindingTimeoutMillis cfg \<le> retry_elapsed r then uncaught s @ [retry_message r]
            else uncaught s)"
    and "promises (fire_timer cfg (length ts) s) = promises s"
    and "windowApiMapByWebContentsID (fire_timer cfg (length ts) s) =
           windowApiMapByWebContentsID s"
    and "webContents_send (fire_timer cfg (length ts) s) =
           webContents_send s @
             [(webContents_id (retry_window r), API_REQUEST_IPC, RequestedClass (retry_class r))]"
  using assms
  by (simp_all add: fire_timer_def Let_def retryUntilTimeout_def attemptFunc_def
        attemptBindWindowApi_def)

lemma bind_unregistered:
  assumes none: "lookup2 (windowApiMapByWebContentsID st) (webContents_id window) apiClassName =
                   None"
      and unbound: "lookup2 (boundWindowApisByWindowID st) (webContents_id window) apiClassName =
                   None"
      and positive: "0 < bindingTimeoutMillis cfg"
  shows "fst (bindWindowApi cfg window apiClassName st) = length (promises st)"
    and "timers (snd (bindWindowApi cfg window apiClassName st)) =
           timers st @
             [\<lparr>retry_promise = length (promises st), retry_window = window,
               retry_class = apiClassName, retry_elapsed = retryIntervalMillis cfg,
               retry_message = timeoutMessage window apiClassName\<rparr>]"
    and "uncaught (snd (bindWindowApi cfg window apiClassName st)) = uncaught st"
    and "promises (snd (bindWindowApi cfg window apiClassName st)) = promises st @ [Pending]"
    and "windowApiMapByWebContentsID (snd (bindWindowApi cfg window apiClassName st)) =
           windowApiMapByWebContentsID st"
    and "webContents_send (snd (bindWindowApi cfg window apiClassName st)) =
           webContents_send st @
             [(webContents_id window, API_REQUEST_IPC, RequestedClass apiClassName)]"
  using assms
  by (simp_all add: bindWindowApi_def Let_def retryUntilTimeout_def attemptFunc_def
        attemptBindWindowApi_def)

text \<open>
  The executor of the promise is the one place where the timeout error rejects: with a
  timeout of zero the first attempt, made while the executor runs, already times out.
\<close>

lemma bind_timeout_zero:
  assumes "lookup2 (windowApiMapByWebContentsID st) (webContents_id window) apiClassName = None"
      and "lookup2 (boundWindowApisByWindowID st) (webContents_id window) apiClassName = None"
      and "bindingTimeoutMillis cfg = 0"
  shows "promises (snd (bindWindowApi cfg window apiClassName st)) =
           promises st @ [Rejected (timeoutMessage window apiClassName)]"
    and "timers (snd (bindWindowApi cfg window apiClassName st)) = timers st"
  using assms
  by (simp_all add: bindWindowApi_def Let_def retryUntilTimeout_def attemptFunc_def
        attemptBindWindowApi_def reject_def)

lemma retry_count:
  fixes T I :: nat
  assumes "0 < I"
  shows "T \<le> ((T + I - 1) div I) * I \<and> ((T + I - 1) div I) * I < T + I"
proof -
  have eq: "((T + I - 1) div I) * I + (T + I - 1) mod I = T + I - 1"
    by simp
  have "(T + I - 1) mod I < I"
    using assms by simp
  with eq assms show ?thesis by linarith
qed

text \<open>
  C3, amended. Let a window have no registration and no bound API for a class, and let
  the timeout and the retry interval be positive. When no registration arrives, so that
  only the retry timer of the bind fires, there is a number \<open>k\<close> of retries at which the
  loop ends: the elapsed time \<open>k\<close> times the interval has reached the timeout and exceeds it
  by less than one interval. Before that the retry is pending and nothing is thrown. At
  retry \<open>k\<close> the timeout error, whose message names the class and the id of the window,
  is thrown out of the timer callback, no retry is left, and the promise that the bind
  returned is still pending: the timeout does not reject it.
\<close>

theorem bind_times_out:
  assumes none: "lookup2 (windowApiMapByWebContentsID st) (webContents_id window) apiClassName =
                   None"
      and unbound: "lookup2 (boundWindowApisByWindowID st) (webContents_id window) apiClassName =
                   None"
      and timeout: "0 < bindingTimeoutMillis cfg"
      and interval: "0 < retryIntervalMillis cfg"
  shows "\<exists>k. bindingTimeoutMillis cfg \<le> k * retryIntervalMillis cfg \<and>
             k * retryIntervalMillis cfg < bindingTimeoutMillis cfg + retryIntervalMillis cfg \<and>
             (\<forall>j<k.
                timers ((fire_timer cfg (length (timers st)) ^^ j)
                          (snd (bindWindowApi cfg window apiClassName st))) =
                  timers st @
                    [\<lparr>retry_promise = length (promises st), retry_window = window,
                      retry_class = apiClassName,
                      retry_elapsed = (j + 1) * retryIntervalMillis cfg,
                      retry_message = timeoutMessage window apiClassName\<rparr>] \<and>
                uncaught ((fire_timer cfg (length (timers st)) ^^ j)
                            (snd (bindWindowApi cfg window apiClassName st))) = uncaught st \<and>
                promises ((fire_timer cfg (length (timers st)) ^^ j)
                            (snd (bindWindowApi cfg window apiClassName st))) =
                  promises st @ [Pending]) \<and>
             timers ((fire_timer cfg (length (timers st)) ^^ k)
                       (snd (bindWindowApi cfg window apiClassName st))) = timers st \<and>
             uncaught ((fire_timer cfg (length (timers st)) ^^ k)
                         (snd (bindWindowApi cfg window apiClassName st))) =
               uncaught st @ [timeoutMessage window apiClassName] \<and>
             promises ((fire_timer cfg (length (timers st)) ^^ k)
                         (snd (bindWindowApi cfg window apiClassName st))) =
               promises st @ [Pending]"
proof -
  define T where "T = bindingTimeoutMillis cfg"
  define I where "I = retryIntervalMillis cfg"
  define k where "k = (T + I - 1) div I"
  define F where
    "F j = (fire_timer cfg (length (timers st)) ^^ j)
             (snd (bindWindowApi cfg window apiClassName st))" for j
  define r where
    "r e = \<lparr>retry_promise = length (promises st), retry_window = window,
             retry_class = apiClassName, retry_elapsed = e,
             retry_message = timeoutMessage window apiClassName\<rparr>" for e
  have bounds: "T \<le> k * I" "k * I < T + I"
    using retry_count [of I T] interval by (simp_all add: k_def I_def)
  have early: "j * I < T" if "j < k" for j
  proof -
    from that have "(j + 1) * I \<le> k * I"
      by (intro mult_le_mono1) simp
    with bounds(2) show ?thesis by simp
  qed
  have k_pos: "0 < k"
    using bounds(1) timeout by (cases k) (simp_all add: T_def)
  have waiting:
    "timers (F j) = timers st @ [r ((j + 1) * I)] \<and>
     uncaught (F j) = uncaught st \<and>
     promises (F j) = promises st @ [Pending] \<and>
     windowApiMapByWebContentsID (F j) = windowApiMapByWebContentsID st"
    if "j < k" for j
    using that
  proof (induction j)
    case 0
    show ?case
      using bind_unregistered [OF none unbound timeout]
      by (simp add: F_def r_def I_def)
  next
    case (Suc j)
    then have IH: "timers (F j) = timers st @ [r ((j + 1) * I)]"
      "uncaught (F j) = uncaught st" "promises (F j) = promises st @ [Pending]"
      "windowApiMapByWebContentsID (F j) = windowApiMapByWebContentsID st"
      by simp_all
    have none': "lookup2 (windowApiMapByWebContentsID (F j))
                   (webContents_id (retry_window (r ((j + 1) * I))))
                   (retry_class (r ((j + 1) * I))) = None"
      using none by (simp add: IH(4) r_def)
    have not_yet: "\<not> bindingTimeoutMillis cfg \<le> retry_elapsed (r ((j + 1) * I))"
      using early [of "j + 1"] Suc.prems by (simp add: r_def T_def)
    have step: "F (Suc j) = fire_timer cfg (length (timers st)) (F j)"
      by (simp add: F_def)
    show ?case
      using fire_timer_unregistered [OF IH(1) none', of cfg] not_yet
      by (simp add: step IH r_def I_def)
  qed
  have last: "timers (F k) = timers st \<and>
              uncaught (F k) = uncaught st @ [timeoutMessage window apiClassName] \<and>
              promises (F k) = promises st @ [Pending]"
  proof -
    obtain j where j: "k = Suc j"
      using k_pos by (cases k) simp_all
    then have "j < k" by simp
    from waiting [OF this]
    have W: "timers (F j) = timers st @ [r ((j + 1) * I)]"
      "uncaught (F j) = uncaught st" "promises (F j) = promises st @ [Pending]"
      "windowApiMapByWebContentsID (F j) = windowApiMapByWebContentsID st"
      by simp_all
    have none': "lookup2 (windowApiMapByWebContentsID (F j))
                   (webContents_id (retry_window (r ((j + 1) * I))))
                   (retry_class (r ((j + 1) * I))) = None"
      using none by (simp add: W(4) r_def)
    have late: "bindingTimeoutMillis cfg \<le> retry_elapsed (r ((j + 1) * I))"
      using bounds(1) j by (simp add: r_def T_def)
    have step: "F k = fire_timer cfg (length (timers st)) (F j)"
      by (simp add: F_def j)
    show ?thesis
      using fire_timer_unregistered [OF W(1) none', of cfg] late
      by (simp add: step W r_def)
  qed
  from bounds waiting last show ?thesis
    unfolding T_def I_def F_def r_def by blast
qed

theorem bind_times_out_witness:
  "\<exists>k. 300 \<le> k * 50 \<and> k * 50 < 350 \<and>
       timers ((fire_timer sampleConfig 0 ^^ k)
                 (snd (bindWindowApi sampleConfig sampleWindow ''Pinger''
                         (initial :: string main_process)))) = [] \<and>
       uncaught ((fire_timer sampleConfig 0 ^^ k)
                   (snd (bindWindowApi sampleConfig sampleWindow ''Pinger''
                           (initial :: string main_process)))) =
         [''Main timed out waiting to bind to window API 'Pinger' (window ID 5)''] \<and>
       promises ((fire_timer sampleConfig 0 ^^ k)
                   (snd (bindWindowApi sampleConfig sampleWindow ''Pinger''
                           (initial :: string main_process)))) = [Pending]"
proof -
  have none: "lookup2 (windowApiMapByWebContentsID (initial :: string main_process))
                (webContents_id sampleWindow) ''Pinger'' = None"
    by (simp add: initial_def lookup2_def)
  have unbound: "lookup2 (boundWindowApisByWindowID (initial :: string main_process))
                   (webContents_id sampleWindow) ''Pinger'' = None"
    by (simp add: initial_def lookup2_def)
  have positive: "0 < bindingTimeoutMillis sampleConfig" "0 < retryIntervalMillis sampleConfig"
    by (simp_all add: sampleConfig_def)
  have start: "length (timers (initial :: string main_process)) = 0"
    "timers (initial :: string main_process) = []"
    "uncaught (initial :: string main_process) = []"
    "promises (initial :: string main_process) = []"
    by (simp_all add: initial_def)
  have config: "bindingTimeoutMillis sampleConfig = 300" "retryIntervalMillis sampleConfig = 50"
    by (simp_all add: sampleConfig_def)
  from bind_times_out [OF none unbound positive]
  obtain k where
    "bindingTimeoutMillis sampleConfig \<le> k * retryIntervalMillis sampleConfig"
    "k * retryIntervalMillis sampleConfig <
       bindingTimeoutMillis sampleConfig + retryIntervalMillis sampleConfig"
    "timers ((fire_timer sampleConfig (length (timers (initial :: string main_process))) ^^ k)
               (snd (bindWindowApi sampleConfig sampleWindow ''Pinger''
                       (initial :: string main_process)))) =
       timers (initial :: string main_process)"
    "uncaught ((fire_timer sampleConfig (length (timers (initial :: string main_process))) ^^ k)
               (snd (bindWindowApi sampleConfig sampleWindow ''Pinger''
                       (initial :: string main_process)))) =
       uncaught (initial :: string main_process) @ [timeoutMessage sampleWindow ''Pinger'']"
    "promises ((fire_timer sampleConfig (length (timers (initial :: string main_process))) ^^ k)
               (snd (bindWindowApi sampleConfig sampleWindow ''Pinger''
                       (initial :: string main_process)))) =
       promises (initial :: string main_process) @ [Pending]"
    by (elim exE conjE) (rule that; assumption)
  then show ?thesis
    by (intro exI [of _ k]) (simp add: start config sample_timeoutMessage)
qed

end
